theory Spec2Isabelle
  imports Complex_Main "HOL-Library.Char_ord" "HOL-Library.List_Lexorder"
begin

section \<open>VistaraBI AI service: the KPI and goal route handlers\<close>

text \<open>
  The service under \<^verbatim>\<open>src/ai\<close> is a FastAPI application whose route handlers
  return literal dictionaries. This theory embeds the handlers of
  \<^verbatim>\<open>routes/kpis.py\<close> and \<^verbatim>\<open>routes/goals.py\<close> and settles what the
  specification says about them.

  Modelling conventions.
  \<^item> A pydantic model is a record with the fields of the class, in the order of the class.
  \<^item> A value of Python type \<^verbatim>\<open>Any\<close> is a value of the datatype \<open>any\<close>.
  \<^item> A \<^verbatim>\<open>Dict[str, ...]\<close> is an association list in insertion order.
  \<^item> A Python \<^verbatim>\<open>float\<close> is read as the real number that the double denotes. No
    handler does arithmetic on a float. Of the two float literals in the handlers,
    \<^verbatim>\<open>0.75\<close> is a double exactly (\<open>3/4\<close>), and \<^verbatim>\<open>0.15\<close> is not: it denotes the
    nearest double, \<open>literal_0_15\<close> below.
  \<^item> A handler returns \<open>error + response\<close>; \<open>Inl\<close> is a raised exception. The handler
    bodies consist of one \<^verbatim>\<open>return\<close> of a literal and contain neither a
    \<^verbatim>\<open>raise\<close> nor an operation that can raise, so each model is a single \<open>Inr\<close>.
\<close>

subsection \<open>Values and errors\<close>

datatype any =
    ANone
  | ABool bool
  | AInt int
  | AFloat real
  | AStr string
  | AList "any list"
  | ADict "(string \<times> any) list"

text \<open>
  The exceptions the specification names, and Python's own error for a division by zero.
  None of them is raised anywhere in the source.
\<close>

datatype error =
    UnmappableGoalError
  | CyclicDependencyError
  | InvalidGoalParametersError
  | InvalidTimelineWindowError
  | ZeroDivisionError

subsection \<open>\<^verbatim>\<open>routes/kpis.py\<close>\<close>

record KPIRequest =
  domain :: string
  columns :: "string list"
  data_sample :: "(string \<times> any) list"

record KPI =
  name :: string
  description :: string
  formula :: string
  category :: string
  priority :: int

record KPIResponse =
  kpis :: "KPI list"
  recommendations :: "string list"

text \<open>
  An entry of \<^verbatim>\<open>kpis\<close> as the dictionary that the handler writes and the response model
  \<^verbatim>\<open>KPI\<close> admits: the five keys of the class, in its order.
\<close>

definition KPI_dict :: "KPI \<Rightarrow> (string \<times> any) list" where
  "KPI_dict k =
     [ (''name'', AStr (name k)),
       (''description'', AStr (description k)),
       (''formula'', AStr (formula k)),
       (''category'', AStr (category k)),
       (''priority'', AInt (priority k)) ]"

text \<open>
  \<^verbatim>\<open>get_kpi_library\<close> has no response model; its dictionary has the keys
  \<^verbatim>\<open>domain\<close> and \<^verbatim>\<open>kpis\<close>.
\<close>

record KPILibraryResponse =
  library_domain :: string
  library_kpis :: "KPI list"

definition extract_kpis :: "KPIRequest \<Rightarrow> error + KPIResponse" where
  "extract_kpis request = Inr
     \<lparr> kpis =
         [ \<lparr> name = ''Revenue Growth Rate'',
             description = ''Year-over-year revenue growth percentage'',
             formula = ''((current_revenue - previous_revenue) / previous_revenue) * 100'',
             category = ''Financial'',
             priority = 1 \<rparr>,
           \<lparr> name = ''Customer Acquisition Cost'',
             description = ''Average cost to acquire a new customer'',
             formula = ''total_marketing_spend / new_customers'',
             category = ''Marketing'',
             priority = 2 \<rparr> ],
       recommendations =
         [ ''Add customer_id column to track customer metrics'',
           ''Include date column for time-based analysis'' ] \<rparr>"

definition get_kpi_library :: "string \<Rightarrow> error + KPILibraryResponse" where
  "get_kpi_library domain' = Inr \<lparr> library_domain = domain', library_kpis = [] \<rparr>"

subsection \<open>\<^verbatim>\<open>routes/goals.py\<close>\<close>

record GoalRequest =
  goal_text :: string
  target_value :: real
  current_value :: real
  deadline :: string
  available_kpis :: "string list"

text \<open>
  The class \<^verbatim>\<open>Action\<close> has fields \<^verbatim>\<open>description\<close> and \<^verbatim>\<open>priority\<close> like
  \<^verbatim>\<open>KPI\<close>; here they carry the prefix \<open>action_\<close>.
\<close>

record Action =
  title :: string
  action_description :: string
  action_priority :: string
  impact :: string
  effort :: string

record GoalResponse =
  mapped_kpis :: "string list"
  actions :: "Action list"
  dependencies :: "(string \<times> string list) list"
  timeline :: "(string \<times> any) list list"

text \<open>
  \<^verbatim>\<open>estimate_goal_feasibility\<close> has no response model; its dictionary has the keys
  \<^verbatim>\<open>feasible\<close>, \<^verbatim>\<open>confidence\<close>, \<^verbatim>\<open>reasoning\<close> and \<^verbatim>\<open>recommendations\<close>.
\<close>

record FeasibilityResponse =
  feasible :: bool
  confidence :: real
  reasoning :: string
  feasibility_recommendations :: "string list"

text \<open>
  The value of the float literal \<^verbatim>\<open>0.15\<close> in the timeline of \<^verbatim>\<open>map_goal_to_kpis\<close>: the
  double nearest to \<open>15/100\<close>, whose exact value is \<open>5404319552844595 / 2^55\<close>
  (\<^verbatim>\<open>(0.15).as_integer_ratio()\<close> is \<^verbatim>\<open>(5404319552844595, 36028797018963968)\<close>).
\<close>

definition literal_0_15 :: real where
  "literal_0_15 = 5404319552844595 / 2 ^ 55"

definition map_goal_to_kpis :: "GoalRequest \<Rightarrow> error + GoalResponse" where
  "map_goal_to_kpis request = Inr
     \<lparr> mapped_kpis = [''Revenue Growth Rate'', ''Customer Acquisition Cost''],
       actions =
         [ \<lparr> title = ''Optimize Marketing Campaigns'',
             action_description = ''Focus on high-performing channels to reduce CAC'',
             action_priority = ''high'',
             impact = ''high'',
             effort = ''medium'' \<rparr>,
           \<lparr> title = ''Improve Conversion Rate'',
             action_description = ''A/B test landing pages to increase conversions'',
             action_priority = ''medium'',
             impact = ''medium'',
             effort = ''low'' \<rparr> ],
       dependencies =
         [ (''Revenue Growth Rate'', [''Customer Acquisition Cost'', ''Average Order Value'']) ],
       timeline =
         [ [ (''week'', AInt 1),
             (''actions'', AList [AStr ''Optimize Marketing Campaigns'']),
             (''expected_impact'', AFloat literal_0_15) ] ] \<rparr>"

definition estimate_goal_feasibility :: "GoalRequest \<Rightarrow> error + FeasibilityResponse" where
  "estimate_goal_feasibility request = Inr
     \<lparr> feasible = True,
       confidence = 0.75,
       reasoning = ''Based on current trends, this goal is achievable'',
       feasibility_recommendations = [] \<rparr>"

section \<open>Notions of the specification\<close>

text \<open>
  The specification speaks of a KPI library, a keyword lexicon, a dependency graph and a
  cumulative impact. The source holds none of these tables and computes none of these
  quantities, so they are defined here in the specification's words, to state its
  sentences about the handlers.
\<close>

subsection \<open>KPI library and relevance\<close>

text \<open>
  Modelled from the spec: a library entry (\<^verbatim>\<open>KPIDefinition\<close>) with the fields the
  ranking reads: its name, its \<^verbatim>\<open>requiredFields\<close>, its \<^verbatim>\<open>domainAffinity\<close> table and
  its library-declared priority. The source has no KPI library.
\<close>

record KPIDefinition =
  kpi_name :: string
  requiredFields :: "string list"
  domainAffinity :: "(string \<times> real) list"
  library_priority :: int

text \<open>
  Modelled from the spec: \<^verbatim>\<open>domainAffinity[domain]\<close>; for a domain that is not in the
  table, the entry under the label \<^verbatim>\<open>generic\<close> ("unknown domain: fall back to global
  generic affinity"). A KPI with neither entry has no affinity.
\<close>

definition affinity :: "KPIDefinition \<Rightarrow> string \<Rightarrow> real option" where
  "affinity k d =
     (case map_of (domainAffinity k) d of
        Some w \<Rightarrow> Some w
      | None \<Rightarrow> map_of (domainAffinity k) ''generic'')"

text \<open>
  Modelled from the spec:
  \<^verbatim>\<open>coverage = |requiredFields \<inter> columns| / |requiredFields|\<close>, where
  \<^verbatim>\<open>requiredFields\<close> is not empty (an invariant of the library).
\<close>

definition coverage :: "string list \<Rightarrow> KPIDefinition \<Rightarrow> real" where
  "coverage cols k =
     real (length (filter (\<lambda>f. f \<in> set cols) (remdups (requiredFields k))))
       / real (length (remdups (requiredFields k)))"

text \<open>
  Modelled from the spec:
  \<^verbatim>\<open>relevanceScore = w1 * domainAffinity[domain] + w2 * coverage\<close> with
  \<^verbatim>\<open>w1 = 0.6\<close> and \<^verbatim>\<open>w2 = 0.4\<close>.
\<close>

definition relevanceScore :: "string \<Rightarrow> string list \<Rightarrow> KPIDefinition \<Rightarrow> real option" where
  "relevanceScore d cols k =
     (case affinity k d of
        None \<Rightarrow> None
      | Some a \<Rightarrow> Some (0.6 * a + 0.4 * coverage cols k))"

text \<open>
  Modelled from the spec: the ranking order. Entry \<open>a\<close> may stand before entry \<open>b\<close> when
  its relevance score is larger, or the scores are equal and its library priority is
  smaller, or both are equal and its name is not larger in the lexicographic order.
\<close>

definition ranked_before :: "string \<Rightarrow> string list \<Rightarrow> KPIDefinition \<Rightarrow> KPIDefinition \<Rightarrow> bool" where
  "ranked_before d cols a b \<longleftrightarrow>
     (case (relevanceScore d cols a, relevanceScore d cols b) of
        (Some x, Some y) \<Rightarrow>
          x > y
          \<or> (x = y
             \<and> (library_priority a < library_priority b
                \<or> (library_priority a = library_priority b \<and> kpi_name a \<le> kpi_name b)))
      | _ \<Rightarrow> False)"

text \<open>
  The order in which the response of \<^verbatim>\<open>extract_kpis\<close> does stand: by the
  \<^verbatim>\<open>priority\<close> field of its entries, ascending, then by name.
\<close>

definition priority_before :: "KPI \<Rightarrow> KPI \<Rightarrow> bool" where
  "priority_before a b \<longleftrightarrow>
     priority a < priority b \<or> (priority a = priority b \<and> name a \<le> name b)"

text \<open>
  Modelled from the spec: the library of its retail scenario. Revenue Growth Rate requires
  \<^verbatim>\<open>revenue\<close> and has retail affinity \<open>0.9\<close>; Customer Acquisition Cost requires
  \<^verbatim>\<open>marketing_spend\<close> and \<^verbatim>\<open>new_customers\<close> and has retail affinity \<open>0.5\<close>. The
  scenario gives no priorities; they are the \<^verbatim>\<open>priority\<close> values that
  \<^verbatim>\<open>extract_kpis\<close> returns for the two KPIs.
\<close>

definition scenario_library :: "KPIDefinition list" where
  "scenario_library =
     [ \<lparr> kpi_name = ''Revenue Growth Rate'',
         requiredFields = [''revenue''],
         domainAffinity = [(''retail'', 0.9)],
         library_priority = 1 \<rparr>,
       \<lparr> kpi_name = ''Customer Acquisition Cost'',
         requiredFields = [''marketing_spend'', ''new_customers''],
         domainAffinity = [(''retail'', 0.5)],
         library_priority = 2 \<rparr> ]"

subsection \<open>Keyword lexicon\<close>

text \<open>
  Modelled from the spec: the goal text is cut at spaces into tokens, and a keyword of the
  lexicon matches when it is one of the tokens. The source has no lexicon.
\<close>

fun tokens_from :: "string \<Rightarrow> string \<Rightarrow> string list" where
  "tokens_from cur [] = (if cur = [] then [] else [cur])"
| "tokens_from cur (c # cs) =
     (if c = CHR '' ''
      then (if cur = [] then tokens_from [] cs else cur # tokens_from [] cs)
      else tokens_from (cur @ [c]) cs)"

definition tokens :: "string \<Rightarrow> string list" where
  "tokens txt = tokens_from [] txt"

definition keyword_matches :: "(string \<times> string) list \<Rightarrow> string \<Rightarrow> string list" where
  "keyword_matches lexicon txt =
     filter (\<lambda>kw. kw \<in> set (tokens txt)) (remdups (map fst lexicon))"

text \<open>Modelled from the spec: the lexicon entries the specification gives as examples.\<close>

definition example_lexicon :: "(string \<times> string) list" where
  "example_lexicon =
     [ (''revenue'', ''Financial''), (''growth'', ''Financial''),
       (''cost'', ''Marketing''), (''acquisition'', ''Marketing'') ]"

subsection \<open>Dependency graph\<close>


definition dependency_names :: "(string \<times> string list) list \<Rightarrow> string set" where
  "dependency_names g = set (concat (map snd g))"



subsection \<open>Timeline\<close>

text \<open>
  The \<^verbatim>\<open>expected_impact\<close> entry of a weekly bucket, and the sum over the buckets of a
  timeline.
\<close>

definition expected_impact :: "(string \<times> any) list \<Rightarrow> real" where
  "expected_impact bucket =
     (case map_of bucket ''expected_impact'' of
        Some (AFloat x) \<Rightarrow> x
      | Some (AInt n) \<Rightarrow> of_int n
      | _ \<Rightarrow> 0)"

definition cumulative_impact :: "(string \<times> any) list list \<Rightarrow> real" where
  "cumulative_impact buckets = sum_list (map expected_impact buckets)"

section \<open>KPI extraction and the KPI library\<close>

text \<open>
  C1. Two calls of \<^verbatim>\<open>extract_kpis\<close> return the same response, whatever the two requests
  are: the KPI list has the same entries in the same order, and the response does not
  depend on the domain, the columns or the data sample of the request.
\<close>

theorem extract_kpis_independent_of_request:
  "extract_kpis request1 = extract_kpis request2
   \<and> (\<exists>response. extract_kpis request1 = Inr response
        \<and> extract_kpis request2 = Inr response
        \<and> map name (kpis response) = [''Revenue Growth Rate'', ''Customer Acquisition Cost'']
        \<and> map priority (kpis response) = [1, 2])"
  by (simp add: extract_kpis_def)

text \<open>
  C10. For every domain string \<^verbatim>\<open>get_kpi_library\<close> succeeds; the response carries the
  requested domain and an empty list of KPIs.
\<close>

theorem get_kpi_library_echoes_domain_empty:
  "get_kpi_library d = Inr \<lparr> library_domain = d, library_kpis = [] \<rparr>"
  by (simp add: get_kpi_library_def)

text \<open>
  C2 (as stated, refuted). The response of \<^verbatim>\<open>extract_kpis\<close> is not sorted by the
  relevance score. In the retail scenario of the specification, asked with the columns
  \<^verbatim>\<open>marketing_spend\<close> and \<^verbatim>\<open>new_customers\<close>, Revenue Growth Rate scores
  \<open>0.6 * 0.9 + 0.4 * 0 = 0.54\<close> and Customer Acquisition Cost scores
  \<open>0.6 * 0.5 + 0.4 * 1 = 0.7\<close>, yet the response lists Revenue Growth Rate first.
\<close>

theorem extract_kpis_not_ranked_by_relevance:
  "\<not> isl (extract_kpis \<lparr> domain = ''retail'',
                         columns = [''marketing_spend'', ''new_customers''],
                         data_sample = [] \<rparr>)
   \<and> map name (kpis (projr (extract_kpis
         \<lparr> domain = ''retail'',
           columns = [''marketing_spend'', ''new_customers''],
           data_sample = [] \<rparr>)))
       = map kpi_name scenario_library
   \<and> map (relevanceScore ''retail'' [''marketing_spend'', ''new_customers'']) scenario_library
       = [Some 0.54, Some 0.7]
   \<and> \<not> sorted_wrt (ranked_before ''retail'' [''marketing_spend'', ''new_customers''])
         scenario_library"
  by (simp add: extract_kpis_def ranked_before_def relevanceScore_def affinity_def
      coverage_def scenario_library_def)

text \<open>
  C2 (amended). For every domain, column set and data sample, \<^verbatim>\<open>extract_kpis\<close> returns
  the same two entries: Revenue Growth Rate with priority 1, then Customer Acquisition
  Cost with priority 2. They are sorted by their \<^verbatim>\<open>priority\<close> field ascending (ties by
  name), and the order is the same for every other domain and column set.
\<close>

theorem extract_kpis_sorted_by_priority:
  "\<exists>response. extract_kpis request = Inr response
     \<and> map name (kpis response) = [''Revenue Growth Rate'', ''Customer Acquisition Cost'']
     \<and> map priority (kpis response) = [1, 2]
     \<and> sorted_wrt priority_before (kpis response)
     \<and> extract_kpis (request\<lparr> domain := d, columns := cols \<rparr>) = Inr response"
  by (simp add: extract_kpis_def priority_before_def)

text \<open>
  C7 (as stated, refuted). Asked with an empty column set, \<^verbatim>\<open>extract_kpis\<close> returns
  entries that carry no \<^verbatim>\<open>matchedFields\<close> at all, hence no empty one: each entry has
  the five keys of \<^verbatim>\<open>KPI\<close> and no other.
\<close>

theorem extract_kpis_empty_columns_no_matched_fields:
  "columns \<lparr> domain = ''retail'', columns = [], data_sample = [] \<rparr> = []
   \<and> \<not> isl (extract_kpis \<lparr> domain = ''retail'', columns = [], data_sample = [] \<rparr>)
   \<and> map (\<lambda>k. map fst (KPI_dict k))
         (kpis (projr (extract_kpis \<lparr> domain = ''retail'', columns = [], data_sample = [] \<rparr>)))
       = [ [''name'', ''description'', ''formula'', ''category'', ''priority''],
           [''name'', ''description'', ''formula'', ''category'', ''priority''] ]
   \<and> map (\<lambda>k. map_of (KPI_dict k) ''matchedFields'')
         (kpis (projr (extract_kpis \<lparr> domain = ''retail'', columns = [], data_sample = [] \<rparr>)))
       = [None, None]"
  by (simp add: extract_kpis_def KPI_dict_def)

text \<open>
  C7 (amended). For every domain and data sample, if the column set is empty,
  \<^verbatim>\<open>extract_kpis\<close> raises no error; it returns, as for every other column set, two
  KPIs (so at most three): Revenue Growth Rate with priority 1, then Customer Acquisition
  Cost with priority 2. Each entry has the keys \<^verbatim>\<open>name\<close>, \<^verbatim>\<open>description\<close>,
  \<^verbatim>\<open>formula\<close>, \<^verbatim>\<open>category\<close> and \<^verbatim>\<open>priority\<close>, and no \<^verbatim>\<open>matchedFields\<close>.
\<close>

theorem extract_kpis_empty_columns:
  "\<exists>response. extract_kpis (request\<lparr> columns := [] \<rparr>) = Inr response
     \<and> extract_kpis request = Inr response
     \<and> length (kpis response) = 2
     \<and> map name (kpis response) = [''Revenue Growth Rate'', ''Customer Acquisition Cost'']
     \<and> map priority (kpis response) = [1, 2]
     \<and> map (\<lambda>k. map fst (KPI_dict k)) (kpis response)
         = [ [''name'', ''description'', ''formula'', ''category'', ''priority''],
             [''name'', ''description'', ''formula'', ''category'', ''priority''] ]"
  by (simp add: extract_kpis_def KPI_dict_def)

section \<open>Goal mapping\<close>

text \<open>
  C3 (as stated, refuted). The goal text \<^verbatim>\<open>improve efficiency\<close> matches no keyword of
  the lexicon, and \<^verbatim>\<open>map_goal_to_kpis\<close> does not raise \<^verbatim>\<open>UnmappableGoalError\<close>: it
  returns its fixed mapping.
\<close>

theorem map_goal_to_kpis_unmatched_goal_not_rejected:
  "keyword_matches example_lexicon ''improve efficiency'' = []
   \<and> map_goal_to_kpis
         \<lparr> goal_text = ''improve efficiency'', target_value = 120, current_value = 100,
           deadline = ''2026-12-31'',
           available_kpis = [''Revenue Growth Rate'', ''Customer Acquisition Cost''] \<rparr>
       \<noteq> Inl UnmappableGoalError
   \<and> mapped_kpis (projr (map_goal_to_kpis
         \<lparr> goal_text = ''improve efficiency'', target_value = 120, current_value = 100,
           deadline = ''2026-12-31'',
           available_kpis = [''Revenue Growth Rate'', ''Customer Acquisition Cost''] \<rparr>))
       = [''Revenue Growth Rate'', ''Customer Acquisition Cost'']"
  by (simp add: keyword_matches_def example_lexicon_def tokens_def map_goal_to_kpis_def)

text \<open>
  C3 (amended). For every goal text and available-KPI set, \<^verbatim>\<open>map_goal_to_kpis\<close> raises no
  \<^verbatim>\<open>UnmappableGoalError\<close>, whether or not the goal text matches a keyword; it returns
  the mapping Revenue Growth Rate, Customer Acquisition Cost, which is never empty.
\<close>

theorem map_goal_to_kpis_never_unmappable:
  "map_goal_to_kpis request \<noteq> Inl UnmappableGoalError
   \<and> (\<exists>response. map_goal_to_kpis request = Inr response
        \<and> mapped_kpis response = [''Revenue Growth Rate'', ''Customer Acquisition Cost'']
        \<and> mapped_kpis response \<noteq> [])"
  by (simp add: map_goal_to_kpis_def)



text \<open>
  C6 (as stated, refuted). Asked with the available KPIs Revenue Growth Rate and Customer
  Acquisition Cost, \<^verbatim>\<open>map_goal_to_kpis\<close> returns the dependency Average Order Value,
  which is not available.
\<close>

theorem map_goal_to_kpis_dependency_outside_available:
  "\<not> isl (map_goal_to_kpis
         \<lparr> goal_text = ''increase revenue growth'', target_value = 120, current_value = 100,
           deadline = ''2026-12-31'',
           available_kpis = [''Revenue Growth Rate'', ''Customer Acquisition Cost''] \<rparr>)
   \<and> ''Average Order Value'' \<in> dependency_names (dependencies (projr (map_goal_to_kpis
         \<lparr> goal_text = ''increase revenue growth'', target_value = 120, current_value = 100,
           deadline = ''2026-12-31'',
           available_kpis = [''Revenue Growth Rate'', ''Customer Acquisition Cost''] \<rparr>)))
   \<and> ''Average Order Value'' \<notin> set (available_kpis
         \<lparr> goal_text = ''increase revenue growth'', target_value = 120, current_value = 100,
           deadline = ''2026-12-31'',
           available_kpis = [''Revenue Growth Rate'', ''Customer Acquisition Cost''] \<rparr>)"
  by (simp add: map_goal_to_kpis_def dependency_names_def)

text \<open>
  C6 (amended). For every goal-mapping request the returned dependencies are Customer
  Acquisition Cost and Average Order Value, whatever \<^verbatim>\<open>available_kpis\<close> holds; every
  returned dependency name is a member of \<^verbatim>\<open>available_kpis\<close> exactly when the request
  lists both of these names.
\<close>

theorem map_goal_to_kpis_dependencies_fixed:
  "\<exists>response. map_goal_to_kpis request = Inr response
     \<and> dependency_names (dependencies response)
         = {''Customer Acquisition Cost'', ''Average Order Value''}
     \<and> (dependency_names (dependencies response) \<subseteq> set (available_kpis request)
          \<longleftrightarrow> {''Customer Acquisition Cost'', ''Average Order Value''}
                \<subseteq> set (available_kpis request))"
  by (simp add: map_goal_to_kpis_def dependency_names_def)

text \<open>
  C9 (as stated, refuted). The action plan returned by \<^verbatim>\<open>map_goal_to_kpis\<close> is not
  empty, and the \<^verbatim>\<open>expected_impact\<close> values of its timeline, the one value
  \<^verbatim>\<open>0.15\<close>, do not sum to \<open>1\<close> within \<open>10^-6\<close>.
\<close>

theorem map_goal_to_kpis_timeline_not_normalized:
  "\<not> isl (map_goal_to_kpis
         \<lparr> goal_text = ''increase revenue growth'', target_value = 120, current_value = 100,
           deadline = ''2026-12-31'',
           available_kpis = [''Revenue Growth Rate'', ''Customer Acquisition Cost''] \<rparr>)
   \<and> actions (projr (map_goal_to_kpis
         \<lparr> goal_text = ''increase revenue growth'', target_value = 120, current_value = 100,
           deadline = ''2026-12-31'',
           available_kpis = [''Revenue Growth Rate'', ''Customer Acquisition Cost''] \<rparr>)) \<noteq> []
   \<and> \<not> \<bar>cumulative_impact (timeline (projr (map_goal_to_kpis
         \<lparr> goal_text = ''increase revenue growth'', target_value = 120, current_value = 100,
           deadline = ''2026-12-31'',
           available_kpis = [''Revenue Growth Rate'', ''Customer Acquisition Cost''] \<rparr>))) - 1\<bar>
        \<le> 1 / 10 ^ 6"
  by (simp add: map_goal_to_kpis_def cumulative_impact_def expected_impact_def literal_0_15_def)

text \<open>
  C9 (amended). For every request, \<^verbatim>\<open>map_goal_to_kpis\<close> returns with its action plan
  (Optimize Marketing Campaigns, Improve Conversion Rate) the timeline of one weekly
  bucket: week 1, the action Optimize Marketing Campaigns, and \<^verbatim>\<open>expected_impact\<close>
  \<^verbatim>\<open>0.15\<close>. The \<^verbatim>\<open>expected_impact\<close> values sum to the double of \<^verbatim>\<open>0.15\<close>, which is
  within \<open>10^-16\<close> of \<open>0.15\<close>; the sum is not scaled to \<open>1.0\<close>.
\<close>

theorem map_goal_to_kpis_timeline_impact:
  "\<exists>response. map_goal_to_kpis request = Inr response
     \<and> map title (actions response)
         = [''Optimize Marketing Campaigns'', ''Improve Conversion Rate'']
     \<and> timeline response
         = [ [ (''week'', AInt 1),
               (''actions'', AList [AStr ''Optimize Marketing Campaigns'']),
               (''expected_impact'', AFloat literal_0_15) ] ]
     \<and> cumulative_impact (timeline response) = literal_0_15
     \<and> \<bar>literal_0_15 - 0.15\<bar> < 1 / 10 ^ 16
     \<and> \<bar>cumulative_impact (timeline response) - 1\<bar> > 0.84"
  by (simp add: map_goal_to_kpis_def cumulative_impact_def expected_impact_def literal_0_15_def)

section \<open>Feasibility estimation\<close>

text \<open>
  C4 (as stated, refuted). With \<^verbatim>\<open>current_value = 0\<close> the handler
  \<^verbatim>\<open>estimate_goal_feasibility\<close> does not fail with \<^verbatim>\<open>InvalidGoalParametersError\<close>; it
  returns a result, with \<^verbatim>\<open>feasible\<close> true.
\<close>

theorem estimate_goal_feasibility_accepts_zero_current:
  "current_value
       \<lparr> goal_text = ''increase revenue growth'', target_value = 100, current_value = 0,
         deadline = ''2026-12-31'', available_kpis = [''Revenue Growth Rate''] \<rparr> \<le> 0
   \<and> estimate_goal_feasibility
         \<lparr> goal_text = ''increase revenue growth'', target_value = 100, current_value = 0,
           deadline = ''2026-12-31'', available_kpis = [''Revenue Growth Rate''] \<rparr>
       \<noteq> Inl InvalidGoalParametersError
   \<and> \<not> isl (estimate_goal_feasibility
         \<lparr> goal_text = ''increase revenue growth'', target_value = 100, current_value = 0,
           deadline = ''2026-12-31'', available_kpis = [''Revenue Growth Rate''] \<rparr>)
   \<and> feasible (projr (estimate_goal_feasibility
         \<lparr> goal_text = ''increase revenue growth'', target_value = 100, current_value = 0,
           deadline = ''2026-12-31'', available_kpis = [''Revenue Growth Rate''] \<rparr>))"
  by (simp add: estimate_goal_feasibility_def)

text \<open>
  C4 (amended). Whenever \<^verbatim>\<open>current_value <= 0\<close> or \<^verbatim>\<open>target_value <= 0\<close>,
  \<^verbatim>\<open>estimate_goal_feasibility\<close> does not fail: it returns its fixed result, feasible
  with confidence \<open>0.75\<close>.
\<close>

theorem estimate_goal_feasibility_nonpositive_values:
  "current_value request \<le> 0 \<or> target_value request \<le> 0 \<Longrightarrow>
     estimate_goal_feasibility request = Inr
       \<lparr> feasible = True,
         confidence = 0.75,
         reasoning = ''Based on current trends, this goal is achievable'',
         feasibility_recommendations = [] \<rparr>"
  by (simp add: estimate_goal_feasibility_def)

theorem estimate_goal_feasibility_nonpositive_values_witness:
  "(current_value
        \<lparr> goal_text = ''cut losses'', target_value = 0, current_value = - 5,
          deadline = ''2026-12-31'', available_kpis = [] \<rparr> \<le> 0
      \<or> target_value
        \<lparr> goal_text = ''cut losses'', target_value = 0, current_value = - 5,
          deadline = ''2026-12-31'', available_kpis = [] \<rparr> \<le> 0)
   \<and> estimate_goal_feasibility
        \<lparr> goal_text = ''cut losses'', target_value = 0, current_value = - 5,
          deadline = ''2026-12-31'', available_kpis = [] \<rparr>
      = Inr \<lparr> feasible = True,
              confidence = 0.75,
              reasoning = ''Based on current trends, this goal is achievable'',
              feasibility_recommendations = [] \<rparr>"
proof -
  let ?r = "\<lparr> goal_text = ''cut losses'', target_value = 0, current_value = - 5,
              deadline = ''2026-12-31'', available_kpis = [] \<rparr>"
  have nonpositive: "current_value ?r \<le> 0 \<or> target_value ?r \<le> 0"
    by simp
  from estimate_goal_feasibility_nonpositive_values [OF nonpositive] nonpositive
  show ?thesis by blast
qed

text \<open>
  C8 (as stated, refuted). \<^verbatim>\<open>feasible\<close> is not true exactly when
  \<^verbatim>\<open>target_value <= current_value\<close>: with \<^verbatim>\<open>current_value = 100\<close> and
  \<^verbatim>\<open>target_value = 200\<close> the handler returns \<^verbatim>\<open>feasible\<close> true. The handler reads
  neither the deadline nor the clock, so this is its answer also when the deadline is the
  time of the call.
\<close>

theorem estimate_goal_feasibility_feasible_above_current:
  "\<not> isl (estimate_goal_feasibility
         \<lparr> goal_text = ''double revenue'', target_value = 200, current_value = 100,
           deadline = ''2026-11-04'', available_kpis = [''Revenue Growth Rate''] \<rparr>)
   \<and> feasible (projr (estimate_goal_feasibility
         \<lparr> goal_text = ''double revenue'', target_value = 200, current_value = 100,
           deadline = ''2026-11-04'', available_kpis = [''Revenue Growth Rate''] \<rparr>))
   \<and> \<not> target_value
         \<lparr> goal_text = ''double revenue'', target_value = 200, current_value = 100,
           deadline = ''2026-11-04'', available_kpis = [''Revenue Growth Rate''] \<rparr>
       \<le> current_value
         \<lparr> goal_text = ''double revenue'', target_value = 200, current_value = 100,
           deadline = ''2026-11-04'', available_kpis = [''Revenue Growth Rate''] \<rparr>"
  by (simp add: estimate_goal_feasibility_def)

text \<open>
  C8 (amended). \<^verbatim>\<open>estimate_goal_feasibility\<close> performs no division: for every request
  and every deadline it returns, without \<^verbatim>\<open>ZeroDivisionError\<close>, its fixed result with
  \<^verbatim>\<open>feasible\<close> true and confidence \<open>0.75\<close>. So it returns \<^verbatim>\<open>feasible\<close> true with
  \<^verbatim>\<open>current_value = 100\<close> and \<^verbatim>\<open>target_value = 100\<close>, and equally when
  \<^verbatim>\<open>target_value\<close> exceeds \<^verbatim>\<open>current_value\<close>.
\<close>

theorem estimate_goal_feasibility_always_feasible:
  "estimate_goal_feasibility request \<noteq> Inl ZeroDivisionError
   \<and> estimate_goal_feasibility request = Inr
       \<lparr> feasible = True,
         confidence = 0.75,
         reasoning = ''Based on current trends, this goal is achievable'',
         feasibility_recommendations = [] \<rparr>
   \<and> estimate_goal_feasibility
         (request\<lparr> target_value := 100, current_value := 100, deadline := d \<rparr>)
       = estimate_goal_feasibility request
   \<and> feasible (projr (estimate_goal_feasibility
         (request\<lparr> target_value := 100, current_value := 100, deadline := d \<rparr>)))"
  by (simp add: estimate_goal_feasibility_def)

end
